theory Spec2Isabelle
  imports Complex_Main "HOL-Library.AList"
begin

section \<open>Python values\<close>

text \<open>
  The values that flow through \<^verbatim>\<open>nse.py\<close> are what \<^verbatim>\<open>json\<close> decoding and the CSV
  loops produce: \<^verbatim>\<open>None\<close>, booleans, unbounded integers, floats, strings, lists and
  dictionaries with string keys. A dictionary is an association list in insertion order
  (the order in which \<^verbatim>\<open>for keys in d\<close> visits it); lookup is \<open>map_of\<close> and
  \<^verbatim>\<open>d[k] = v\<close> is \<open>AList.update\<close>, which overwrites in place or appends.

  A float is not computed with here. \<open>Nearest q\<close> stands for the binary64 value that
  Python's \<^verbatim>\<open>float\<close> yields for a decimal numeral of exact value \<open>q\<close> (its
  correctly rounded neighbour); \<open>Infinity neg\<close> and \<open>NaN\<close> are the special values.
  Strings are ASCII texts.
\<close>

datatype pyfloat = Nearest rat | Infinity bool | NaN

datatype pyval =
    PNone
  | PBool bool
  | PInt int
  | PFloat pyfloat
  | PStr string
  | PList "pyval list"
  | PDict "(string \<times> pyval) list"

type_synonym pydict = "(string \<times> pyval) list"

text \<open>
  Exceptions, as values. \<open>TransportError\<close> covers what the HTTP layer raises
  (\<^verbatim>\<open>HTTPError\<close>, \<^verbatim>\<open>URLError\<close>, the exceptions of \<^verbatim>\<open>requests\<close>); \<open>Exception msg\<close> is a
  bare \<^verbatim>\<open>raise Exception(msg)\<close>.
\<close>

datatype error =
    TransportError string
  | Exception string
  | JSONDecodeError
  | KeyError pyval
  | IndexError
  | TypeError
  | ValueError
  | AttributeError

section \<open>String primitives\<close>

text \<open>
  The builtins of \<^verbatim>\<open>str\<close> that the source calls, on ASCII text. The whitespace of
  \<^verbatim>\<open>str.split()\<close> and \<^verbatim>\<open>str.strip()\<close> is TAB, LF, VT, FF, CR, FS, GS, RS, US and
  the space; \<^verbatim>\<open>int\<close> and \<^verbatim>\<open>float\<close> skip only TAB, LF, VT, FF, CR and the space around
  their numeral.
\<close>

definition isspace :: "char \<Rightarrow> bool" where
  "isspace c = (c \<in> set [CHR 0x09, CHR 0x0A, CHR 0x0B, CHR 0x0C, CHR 0x0D,
                          CHR 0x1C, CHR 0x1D, CHR 0x1E, CHR 0x1F, CHR 0x20])"

definition isdigit :: "char \<Rightarrow> bool" where
  "isdigit c = (c \<in> set ''0123456789'')"

definition strip :: "string \<Rightarrow> string" where
  "strip s = rev (dropWhile isspace (rev (dropWhile isspace s)))"

definition numeral_space :: "char \<Rightarrow> bool" where
  "numeral_space c = (c \<in> set [CHR 0x09, CHR 0x0A, CHR 0x0B, CHR 0x0C, CHR 0x0D, CHR 0x20])"

definition numeral_strip :: "string \<Rightarrow> string" where
  "numeral_strip s = rev (dropWhile numeral_space (rev (dropWhile numeral_space s)))"

fun upper_char :: "char \<Rightarrow> char" where
  "upper_char c =
     (case map_of (zip ''abcdefghijklmnopqrstuvwxyz'' ''ABCDEFGHIJKLMNOPQRSTUVWXYZ'') c of
        Some u \<Rightarrow> u | None \<Rightarrow> c)"

fun lower_char :: "char \<Rightarrow> char" where
  "lower_char c =
     (case map_of (zip ''ABCDEFGHIJKLMNOPQRSTUVWXYZ'' ''abcdefghijklmnopqrstuvwxyz'') c of
        Some l \<Rightarrow> l | None \<Rightarrow> c)"

definition upper :: "string \<Rightarrow> string" where
  "upper s = map upper_char s"

definition casefold :: "string \<Rightarrow> string" where
  "casefold s = map lower_char s"

text \<open>\<^verbatim>\<open>s.split(sep)\<close> for a one-character separator: every occurrence cuts.\<close>

fun split_on :: "char \<Rightarrow> string \<Rightarrow> string list" where
  "split_on sep [] = [[]]"
| "split_on sep (c # cs) =
     (if c = sep then [] # split_on sep cs
      else (case split_on sep cs of
              w # ws \<Rightarrow> (c # w) # ws
            | [] \<Rightarrow> [[c]]))"

text \<open>\<^verbatim>\<open>s.split()\<close>: the maximal runs of non-whitespace characters.\<close>

fun split_ws_acc :: "string \<Rightarrow> string \<Rightarrow> string list" where
  "split_ws_acc w [] = (if w = [] then [] else [rev w])"
| "split_ws_acc w (c # cs) =
     (if isspace c then (if w = [] then split_ws_acc [] cs else rev w # split_ws_acc [] cs)
      else split_ws_acc (c # w) cs)"

definition split_ws :: "string \<Rightarrow> string list" where
  "split_ws s = split_ws_acc [] s"

text \<open>\<^verbatim>\<open>sep.join(words)\<close>.\<close>

fun join :: "string \<Rightarrow> string list \<Rightarrow> string" where
  "join sep [] = []"
| "join sep [w] = w"
| "join sep (w # v # ws) = w @ sep @ join sep (v # ws)"

text \<open>\<^verbatim>\<open>s.find(sub) == -1\<close> holds when \<open>sub\<close> is no substring of \<open>s\<close>.\<close>

fun contains :: "string \<Rightarrow> string \<Rightarrow> bool" where
  "contains [] sub = (sub = [])"
| "contains (c # cs) sub = (take (length sub) (c # cs) = sub \<or> contains cs sub)"

subsection \<open>\<^verbatim>\<open>int(s)\<close> and \<^verbatim>\<open>float(s)\<close>\<close>

text \<open>
  Both builtins skip the whitespace around the numeral, read an optional sign and allow single underscores
  between digits. \<^verbatim>\<open>int\<close> then wants decimal digits only; \<^verbatim>\<open>float\<close> wants
  \<^verbatim>\<open>inf\<close>, \<^verbatim>\<open>infinity\<close> or \<^verbatim>\<open>nan\<close> in any case, or digits with an optional point and an
  optional exponent. \<open>None\<close> is the \<^verbatim>\<open>ValueError\<close>. The limit on the number of digits
  that recent interpreters put on \<^verbatim>\<open>int\<close> (a run-time setting) is not modelled.
\<close>

fun underscores_ok :: "char \<Rightarrow> string \<Rightarrow> bool" where
  "underscores_ok prev [] = (prev \<noteq> CHR ''_'')"
| "underscores_ok prev (c # cs) =
     (if c = CHR ''_'' then isdigit prev \<and> underscores_ok c cs
      else (isdigit c \<or> prev \<noteq> CHR ''_'') \<and> underscores_ok c cs)"

definition digits_value :: "string \<Rightarrow> nat" where
  "digits_value ds = foldl (\<lambda>n c. 10 * n + (of_char c - 48)) 0 ds"

definition split_sign :: "string \<Rightarrow> bool \<times> string" where
  "split_sign s =
     (case s of
        c # r \<Rightarrow> if c = CHR ''-'' then (True, r) else if c = CHR ''+'' then (False, r)
                 else (False, s)
      | [] \<Rightarrow> (False, s))"

definition unsigned_digits :: "string \<Rightarrow> nat option" where
  "unsigned_digits ds = (if ds \<noteq> [] \<and> list_all isdigit ds then Some (digits_value ds) else None)"

definition signed_digits :: "string \<Rightarrow> int option" where
  "signed_digits s =
     (case split_sign s of (neg, ds) \<Rightarrow>
        (case unsigned_digits ds of
           None \<Rightarrow> None
         | Some n \<Rightarrow> Some (if neg then - int n else int n)))"

definition py_int :: "string \<Rightarrow> int option" where
  "py_int s =
     (case split_sign (numeral_strip s) of (neg, body) \<Rightarrow>
        if underscores_ok (CHR 0x00) body then
          (case unsigned_digits (filter (\<lambda>c. c \<noteq> CHR ''_'') body) of
             None \<Rightarrow> None
           | Some n \<Rightarrow> Some (if neg then - int n else int n))
        else None)"

definition break_at :: "(char \<Rightarrow> bool) \<Rightarrow> string \<Rightarrow> string \<times> string option" where
  "break_at p s =
     (takeWhile (\<lambda>c. \<not> p c) s,
      case dropWhile (\<lambda>c. \<not> p c) s of [] \<Rightarrow> None | _ # r \<Rightarrow> Some r)"

definition pow10 :: "int \<Rightarrow> rat" where
  "pow10 k = (if 0 \<le> k then 10 ^ nat k else 1 / 10 ^ nat (- k))"

definition decimal_value :: "string \<Rightarrow> rat option" where
  "decimal_value b =
     (case break_at (\<lambda>c. c = CHR ''e'' \<or> c = CHR ''E'') b of (mant, ex) \<Rightarrow>
      case break_at (\<lambda>c. c = CHR ''.'') mant of (ip, fp) \<Rightarrow>
        (let frac = (case fp of None \<Rightarrow> [] | Some f \<Rightarrow> f) in
         case unsigned_digits (ip @ frac) of
           None \<Rightarrow> None
         | Some m \<Rightarrow>
            (if list_all isdigit ip \<and> list_all isdigit frac then
               (case (case ex of None \<Rightarrow> Some 0 | Some e \<Rightarrow> signed_digits e) of
                  None \<Rightarrow> None
                | Some k \<Rightarrow> Some (of_nat m * pow10 (k - int (length frac))))
             else None)))"

definition py_float :: "string \<Rightarrow> pyfloat option" where
  "py_float s =
     (case split_sign (numeral_strip s) of (neg, body) \<Rightarrow>
        if casefold body = ''inf'' \<or> casefold body = ''infinity'' then Some (Infinity neg)
        else if casefold body = ''nan'' then Some NaN
        else if underscores_ok (CHR 0x00) body then
          (case decimal_value (filter (\<lambda>c. c \<noteq> CHR ''_'') body) of
             None \<Rightarrow> None
           | Some q \<Rightarrow> Some (Nearest (if neg then - q else q)))
        else None)"

section \<open>The response normaliser\<close>

text \<open>
  \<^verbatim>\<open>cast_intfloat_string_values_to_intfloat\<close> copies the dictionary and visits its keys;
  a value of type \<^verbatim>\<open>str\<close> is replaced by \<^verbatim>\<open>int(v)\<close>, or when that raises by
  \<^verbatim>\<open>float(v)\<close>, or when that raises too it is left alone. \<open>cast_str\<close> is the nested
  \<^verbatim>\<open>try\<close>; \<open>cast_loop\<close> is the \<^verbatim>\<open>for\<close> loop over the keys, carrying the copy.
\<close>

definition cast_str :: "string \<Rightarrow> pyval" where
  "cast_str s =
     (case py_int s of
        Some i \<Rightarrow> PInt i
      | None \<Rightarrow> (case py_float s of Some f \<Rightarrow> PFloat f | None \<Rightarrow> PStr s))"

fun cast_step :: "string \<Rightarrow> pydict \<Rightarrow> pydict" where
  "cast_step keys d =
     (case map_of d keys of
        Some (PStr s) \<Rightarrow> AList.update keys (cast_str s) d
      | _ \<Rightarrow> d)"

fun cast_loop :: "string list \<Rightarrow> pydict \<Rightarrow> pydict" where
  "cast_loop [] d = d"
| "cast_loop (keys # rest) d = cast_loop rest (cast_step keys d)"

definition cast_intfloat_string_values_to_intfloat :: "pydict \<Rightarrow> pydict" where
  "cast_intfloat_string_values_to_intfloat d = cast_loop (map fst d) d"

text \<open>What the loop body does to one value: the conversion of a string, nothing else.\<close>

definition cast_value :: "pyval \<Rightarrow> pyval" where
  "cast_value v = (case v of PStr s \<Rightarrow> cast_str s | _ \<Rightarrow> v)"

subsection \<open>Subscription and iteration of decoded values\<close>

text \<open>
  \<^verbatim>\<open>xs[i]\<close> on a list or a string: a negative index counts from the end, an index out of
  range raises \<^verbatim>\<open>IndexError\<close>.
\<close>

definition py_index :: "'a list \<Rightarrow> int \<Rightarrow> error + 'a" where
  "py_index xs i =
     (if - int (length xs) \<le> i \<and> i < int (length xs)
      then Inr (xs ! nat (i mod int (length xs)))
      else Inl IndexError)"

text \<open>
  \<^verbatim>\<open>obj[key]\<close>. The keys of a decoded dictionary are strings, so any other hashable key
  is a \<^verbatim>\<open>KeyError\<close> and a list or dictionary as key is a \<^verbatim>\<open>TypeError\<close>; lists and strings
  take integers (and booleans, which are integers); nothing else is subscriptable.
\<close>

fun py_getitem :: "pyval \<Rightarrow> pyval \<Rightarrow> error + pyval" where
  "py_getitem (PDict d) (PStr k) = (case map_of d k of Some v \<Rightarrow> Inr v | None \<Rightarrow> Inl (KeyError (PStr k)))"
| "py_getitem (PDict d) (PList ks) = Inl TypeError"
| "py_getitem (PDict d) (PDict kd) = Inl TypeError"
| "py_getitem (PDict d) key = Inl (KeyError key)"
| "py_getitem (PList xs) (PInt i) = py_index xs i"
| "py_getitem (PList xs) (PBool b) = py_index xs (if b then 1 else 0)"
| "py_getitem (PStr s) (PInt i) = map_sum id (\<lambda>c. PStr [c]) (py_index s i)"
| "py_getitem (PStr s) (PBool b) = map_sum id (\<lambda>c. PStr [c]) (py_index s (if b then 1 else 0))"
| "py_getitem obj key = Inl TypeError"

text \<open>\<^verbatim>\<open>xs[key] = v\<close> on a list, for a key that \<open>py_getitem\<close> has accepted.\<close>

fun py_list_set :: "pyval list \<Rightarrow> pyval \<Rightarrow> pyval \<Rightarrow> pyval list" where
  "py_list_set xs (PInt i) v = xs[nat (i mod int (length xs)) := v]"
| "py_list_set xs (PBool b) v = xs[(if b then 1 else 0) := v]"
| "py_list_set xs key v = xs"

text \<open>\<^verbatim>\<open>for i in obj\<close>: the elements of a list, the keys of a dictionary, the characters of a string.\<close>

fun py_iter :: "pyval \<Rightarrow> error + pyval list" where
  "py_iter (PList xs) = Inr xs"
| "py_iter (PDict d) = Inr (map (\<lambda>kv. PStr (fst kv)) d)"
| "py_iter (PStr s) = Inr (map (\<lambda>c. PStr [c]) s)"
| "py_iter obj = Inl TypeError"

fun map_err :: "('a \<Rightarrow> error + 'b) \<Rightarrow> 'a list \<Rightarrow> error + 'b list" where
  "map_err f [] = Inr []"
| "map_err f (x # xs) =
     (case f x of
        Inl e \<Rightarrow> Inl e
      | Inr y \<Rightarrow> (case map_err f xs of Inl e \<Rightarrow> Inl e | Inr ys \<Rightarrow> Inr (y # ys)))"

text \<open>
  The normaliser called on whatever \<^verbatim>\<open>res.json()\<close> gave. A dictionary takes the path
  above. A list also has \<^verbatim>\<open>copy\<close>; the loop then visits its elements and uses each as
  an index into the list. Anything else has no \<^verbatim>\<open>copy\<close>.
\<close>

fun cast_list_loop :: "nat list \<Rightarrow> pyval list \<Rightarrow> error + pyval list" where
  "cast_list_loop [] d = Inr d"
| "cast_list_loop (i # rest) d =
     (case py_getitem (PList d) (d ! i) of
        Inl e \<Rightarrow> Inl e
      | Inr (PStr s) \<Rightarrow> cast_list_loop rest (py_list_set d (d ! i) (cast_str s))
      | Inr v \<Rightarrow> cast_list_loop rest d)"

fun cast_intfloat_any :: "pyval \<Rightarrow> error + pyval" where
  "cast_intfloat_any (PDict d) = Inr (PDict (cast_intfloat_string_values_to_intfloat d))"
| "cast_intfloat_any (PList xs) = map_sum id PList (cast_list_loop [0..<length xs] xs)"
| "cast_intfloat_any obj = Inl AttributeError"

section \<open>The session and the fetch gateway\<close>

text \<open>
  The endpoint constants of \<^verbatim>\<open>nsetools.urls\<close> are names here. A \<^verbatim>\<open>requests.Session\<close>
  object is its serial number: each \<^verbatim>\<open>requests.Session()\<close> makes the next one. What
  the program does to the outside is a trace of events, in order.
\<close>

datatype url = NSE_HOME | TOP_GAINERS_URL | TOP_LOSERS_URL | ALL_INDICES_URL

datatype event =
    NewSession nat
  | SessionGet nat url
  | OpenerOpen string

text \<open>
  The state outside any one client: the class attribute \<^verbatim>\<open>Nse.__CODECACHE__\<close>
  (\<^verbatim>\<open>None\<close> in the class body), the number of session objects made so far, and the
  trace.
\<close>

record world =
  Nse_CODECACHE :: pyval
  sessions_created :: nat
  trace :: "event list"

text \<open>
  The attributes of one \<^verbatim>\<open>Nse\<close> instance. \<open>CODECACHE\<close> is the entry
  \<^verbatim>\<open>__CODECACHE__\<close> of the instance's own dictionary, \<open>None\<close> while the instance has no
  such entry. Times are microseconds on the clock of \<^verbatim>\<open>datetime.now()\<close>.
\<close>

record nse =
  session_refresh_interval :: int
  session :: nat
  session_init_time :: int
  CODECACHE :: "pyval option"

text \<open>A response, as far as the callers look at it: the outcome of \<^verbatim>\<open>res.json()\<close>.\<close>

datatype response = Response (json: "error + pyval")

text \<open>
  What the clock and the network answer during one call of \<^verbatim>\<open>fetch\<close>: the clock
  reading taken by \<^verbatim>\<open>fetch\<close>, the outcome of the warm-up request and the clock reading
  taken after it (both used only if the session is recreated), and the outcome of the
  request itself.
\<close>

record fetch_env =
  now :: int
  home_reply :: "error option"
  boot_now :: int
  reply :: "error + response"

text \<open>\<^verbatim>\<open>timedelta.seconds\<close>: the seconds within the day, after the whole days are taken out.\<close>

definition timedelta_seconds :: "int \<Rightarrow> int" where
  "timedelta_seconds us = (us div 1000000) mod 86400"

definition create_session :: "world \<Rightarrow> nse \<Rightarrow> error option \<Rightarrow> int \<Rightarrow> (error + unit) \<times> world \<times> nse" where
  "create_session w self home t =
     (let sid = sessions_created w;
          w1 = w\<lparr>sessions_created := Suc sid,
                 trace := trace w @ [NewSession sid, SessionGet sid NSE_HOME]\<rparr>;
          self1 = self\<lparr>session := sid\<rparr>
      in case home of
           Some e \<Rightarrow> (Inl e, w1, self1)
         | None \<Rightarrow> (Inr (), w1, self1\<lparr>session_init_time := t\<rparr>))"

definition Nse_init :: "world \<Rightarrow> int \<Rightarrow> error option \<Rightarrow> int \<Rightarrow> (error + nse) \<times> world" where
  "Nse_init w interval home t =
     (case create_session w
             \<lparr>session_refresh_interval = interval, session = 0, session_init_time = 0,
              CODECACHE = None\<rparr> home t of
        (Inl e, w1, self1) \<Rightarrow> (Inl e, w1)
      | (Inr u, w1, self1) \<Rightarrow> (Inr self1, w1))"

definition session_get :: "world \<Rightarrow> nse \<Rightarrow> error + response \<Rightarrow> url \<Rightarrow> (error + response) \<times> world \<times> nse" where
  "session_get w self r u = (r, w\<lparr>trace := trace w @ [SessionGet (session self) u]\<rparr>, self)"

definition fetch :: "world \<Rightarrow> nse \<Rightarrow> fetch_env \<Rightarrow> url \<Rightarrow> (error + response) \<times> world \<times> nse" where
  "fetch w self env u =
     (let time_diff = now env - session_init_time self in
      if timedelta_seconds time_diff < session_refresh_interval self
      then session_get w self (reply env) u
      else (case create_session w self (home_reply env) (boot_now env) of
              (Inl e, w1, self1) \<Rightarrow> (Inl e, w1, self1)
            | (Inr u', w1, self1) \<Rightarrow> session_get w1 self1 (reply env) u))"

section \<open>The reference-data cache\<close>

text \<open>
  Reading \<^verbatim>\<open>self.__CODECACHE__\<close> looks in the instance first and falls back to the
  class; the assignment \<^verbatim>\<open>self.__CODECACHE__ = res_dict\<close> writes the instance. (The
  name ends in two underscores, so it is not mangled; inside the class body that would
  change nothing anyway.)
\<close>

definition getattr_CODECACHE :: "world \<Rightarrow> nse \<Rightarrow> pyval" where
  "getattr_CODECACHE w self = (case CODECACHE self of Some v \<Rightarrow> v | None \<Rightarrow> Nse_CODECACHE w)"

definition setattr_CODECACHE :: "nse \<Rightarrow> pyval \<Rightarrow> nse" where
  "setattr_CODECACHE self v = self\<lparr>CODECACHE := Some v\<rparr>"

text \<open>
  Modelled from the spec: \<^verbatim>\<open>render_response\<close>, which \<^verbatim>\<open>nse.py\<close> calls and does not define.
  With the flag set the result is the JSON text of the value (\<open>JsonText v\<close> stands for
  that text), otherwise the value itself.
\<close>

datatype rendered = Native pyval | JsonText pyval

definition render_response :: "pyval \<Rightarrow> bool \<Rightarrow> rendered" where
  "render_response data as_json = (if as_json then JsonText data else Native data)"

text \<open>
  \<^verbatim>\<open>self.opener.open(req)\<close> is the transport of the two CSV products; \<^verbatim>\<open>opener\<close> is not
  set in \<^verbatim>\<open>nse.py\<close>, so its answer is a parameter: it raises (\<open>Inl\<close>), returns \<^verbatim>\<open>None\<close>,
  or returns a response whose text (after \<^verbatim>\<open>byte_adaptor\<close> and \<^verbatim>\<open>read\<close>) is given. The
  request handed to it is the string literal of the source.
\<close>

type_synonym open_reply = "error + string option"

definition req :: string where
  "req = ''Request(url, None, self.headers)''"

fun stock_codes_loop :: "string list \<Rightarrow> pydict \<Rightarrow> error + pydict" where
  "stock_codes_loop [] res_dict = Inr res_dict"
| "stock_codes_loop (line # rest) res_dict =
     (if line \<noteq> [] \<and> CHR '','' \<in> set line then
        (case take 2 (split_on (CHR '','') line) of
           [code, name] \<Rightarrow> stock_codes_loop rest (AList.update code (PStr name) res_dict)
         | _ \<Rightarrow> Inl ValueError)
      else stock_codes_loop rest res_dict)"

fun fno_lot_sizes_loop :: "string list \<Rightarrow> pydict \<Rightarrow> error + pydict" where
  "fno_lot_sizes_loop [] res_dict = Inr res_dict"
| "fno_lot_sizes_loop (line # rest) res_dict =
     (if line \<noteq> [] \<and> CHR '','' \<in> set line \<and> \<not> contains (casefold line) ''symbol'' then
        (case map strip (take 2 (drop 1 (split_on (CHR '','') line))) of
           [code, name] \<Rightarrow>
             (case py_int name of
                None \<Rightarrow> Inl ValueError
              | Some n \<Rightarrow> fno_lot_sizes_loop rest (AList.update code (PInt n) res_dict))
         | _ \<Rightarrow> Inl ValueError)
      else fno_lot_sizes_loop rest res_dict)"

definition get_stock_codes ::
  "world \<Rightarrow> nse \<Rightarrow> bool \<Rightarrow> bool \<Rightarrow> open_reply \<Rightarrow> (error + rendered) \<times> world \<times> nse" where
  "get_stock_codes w self cached as_json r =
     (if \<not> cached \<or> getattr_CODECACHE w self = PNone then
        (let w1 = w\<lparr>trace := trace w @ [OpenerOpen req]\<rparr> in
         case r of
           Inl e \<Rightarrow> (Inl e, w1, self)
         | Inr None \<Rightarrow> (Inl (Exception ''no response received''), w1, self)
         | Inr (Some text) \<Rightarrow>
             (case stock_codes_loop (split_on (CHR 0x0A) text) [] of
                Inl e \<Rightarrow> (Inl e, w1, self)
              | Inr res_dict \<Rightarrow>
                  (let self1 = setattr_CODECACHE self (PDict res_dict)
                   in (Inr (render_response (getattr_CODECACHE w1 self1) as_json), w1, self1))))
      else (Inr (render_response (getattr_CODECACHE w self) as_json), w, self))"

definition get_fno_lot_sizes ::
  "world \<Rightarrow> nse \<Rightarrow> bool \<Rightarrow> bool \<Rightarrow> open_reply \<Rightarrow> (error + rendered) \<times> world \<times> nse" where
  "get_fno_lot_sizes w self cached as_json r =
     (if \<not> cached \<or> getattr_CODECACHE w self = PNone then
        (let w1 = w\<lparr>trace := trace w @ [OpenerOpen req]\<rparr> in
         case r of
           Inl e \<Rightarrow> (Inl e, w1, self)
         | Inr None \<Rightarrow> (Inl (Exception ''no response received''), w1, self)
         | Inr (Some text) \<Rightarrow>
             (case fno_lot_sizes_loop (split_on (CHR 0x0A) text) [] of
                Inl e \<Rightarrow> (Inl e, w1, self)
              | Inr res_dict \<Rightarrow>
                  (let self1 = setattr_CODECACHE self (PDict res_dict)
                   in (Inr (render_response (getattr_CODECACHE w1 self1) as_json), w1, self1))))
      else (Inr (render_response (getattr_CODECACHE w self) as_json), w, self))"

text \<open>
  \<^verbatim>\<open>is_valid_code\<close>: a falsy code skips the body, and the function falls off its end,
  which returns \<^verbatim>\<open>None\<close>. \<^verbatim>\<open>stock_codes.keys()\<close> needs the dictionary itself.
\<close>

definition is_valid_code :: "world \<Rightarrow> nse \<Rightarrow> open_reply \<Rightarrow> string \<Rightarrow> (error + pyval) \<times> world \<times> nse" where
  "is_valid_code w self r code =
     (if code \<noteq> [] then
        (case get_stock_codes w self True False r of
           (Inl e, w1, self1) \<Rightarrow> (Inl e, w1, self1)
         | (Inr stock_codes, w1, self1) \<Rightarrow>
             (case stock_codes of
                Native (PDict d) \<Rightarrow> (Inr (PBool (upper code \<in> set (map fst d))), w1, self1)
              | _ \<Rightarrow> (Inl AttributeError, w1, self1)))
      else (Inr PNone, w, self))"

section \<open>Product queries\<close>

text \<open>The number of requests that went through \<^verbatim>\<open>opener.open\<close>.\<close>

definition network_fetches :: "world \<Rightarrow> nat" where
  "network_fetches w = length (filter (\<lambda>ev. case ev of OpenerOpen q \<Rightarrow> True | _ \<Rightarrow> False) (trace w))"

text \<open>
  \<^verbatim>\<open>get_top_gainers\<close> and \<^verbatim>\<open>get_top_losers\<close>. \<open>index = PNone\<close> is the default
  \<^verbatim>\<open>index=None\<close>.
\<close>

definition get_top_gainers :: "world \<Rightarrow> nse \<Rightarrow> fetch_env \<Rightarrow> pyval \<Rightarrow> (error + pyval) \<times> world \<times> nse" where
  "get_top_gainers w self env index =
     (case fetch w self env TOP_GAINERS_URL of
        (Inl e, w1, self1) \<Rightarrow> (Inl e, w1, self1)
      | (Inr res, w1, self1) \<Rightarrow>
          (case json res of
             Inl e \<Rightarrow> (Inl e, w1, self1)
           | Inr res_dict \<Rightarrow>
               (if index = PNone then (cast_intfloat_any res_dict, w1, self1)
                else (case py_getitem res_dict index of
                        Inl e \<Rightarrow> (Inl e, w1, self1)
                      | Inr sub \<Rightarrow> (py_getitem sub (PStr ''data''), w1, self1)))))"

definition get_top_losers :: "world \<Rightarrow> nse \<Rightarrow> fetch_env \<Rightarrow> pyval \<Rightarrow> (error + pyval) \<times> world \<times> nse" where
  "get_top_losers w self env index =
     (case fetch w self env TOP_LOSERS_URL of
        (Inl e, w1, self1) \<Rightarrow> (Inl e, w1, self1)
      | (Inr res, w1, self1) \<Rightarrow>
          (case json res of
             Inl e \<Rightarrow> (Inl e, w1, self1)
           | Inr res_dict \<Rightarrow>
               (if index = PNone then (cast_intfloat_any res_dict, w1, self1)
                else (case py_getitem res_dict index of
                        Inl e \<Rightarrow> (Inl e, w1, self1)
                      | Inr sub \<Rightarrow> (py_getitem sub (PStr ''data''), w1, self1)))))"

definition get_all_index_quote :: "world \<Rightarrow> nse \<Rightarrow> fetch_env \<Rightarrow> (error + pyval) \<times> world \<times> nse" where
  "get_all_index_quote w self env =
     (case fetch w self env ALL_INDICES_URL of
        (Inl e, w1, self1) \<Rightarrow> (Inl e, w1, self1)
      | (Inr res, w1, self1) \<Rightarrow>
          (case json res of
             Inl e \<Rightarrow> (Inl e, w1, self1)
           | Inr body \<Rightarrow> (py_getitem body (PStr ''data''), w1, self1)))"

text \<open>\<^verbatim>\<open>[i['indexSymbol'] for i in all_index_quote]\<close>.\<close>

definition index_symbols :: "pyval \<Rightarrow> error + pyval list" where
  "index_symbols all_index_quote =
     (case py_iter all_index_quote of
        Inl e \<Rightarrow> Inl e
      | Inr items \<Rightarrow> map_err (\<lambda>i. py_getitem i (PStr ''indexSymbol'')) items)"

text \<open>
  \<^verbatim>\<open>get_index_quote\<close>. The \<^verbatim>\<open>filter\<close> runs over the elements whose symbols the
  comprehension has already read, so it pairs each element with its symbol; \<^verbatim>\<open>[0]\<close> on
  an empty result is an \<^verbatim>\<open>IndexError\<close>.
\<close>

definition get_index_quote :: "world \<Rightarrow> nse \<Rightarrow> fetch_env \<Rightarrow> string \<Rightarrow> (error + pyval) \<times> world \<times> nse" where
  "get_index_quote w self env code =
     (case get_all_index_quote w self env of
        (Inl e, w1, self1) \<Rightarrow> (Inl e, w1, self1)
      | (Inr all_index_quote, w1, self1) \<Rightarrow>
          (case index_symbols all_index_quote of
             Inl e \<Rightarrow> (Inl e, w1, self1)
           | Inr index_list \<Rightarrow>
               (let code1 = join '' '' (split_ws (upper code)) in
                if PStr code1 \<in> set index_list then
                  (case py_iter all_index_quote of
                     Inl e \<Rightarrow> (Inl e, w1, self1)
                   | Inr items \<Rightarrow>
                       (case filter (\<lambda>p. snd p = PStr code1) (zip items index_list) of
                          [] \<Rightarrow> (Inl IndexError, w1, self1)
                        | p # ps \<Rightarrow> (cast_intfloat_any (fst p), w1, self1)))
                else (Inl (Exception ''Wrong index code''), w1, self1))))"

definition is_transport_error :: "error \<Rightarrow> bool" where
  "is_transport_error e = (case e of TransportError m \<Rightarrow> True | _ \<Rightarrow> False)"

text \<open>The number of requests for one endpoint that went through a session.\<close>

definition requests_to :: "url \<Rightarrow> world \<Rightarrow> nat" where
  "requests_to u w =
     length (filter (\<lambda>ev. case ev of SessionGet sid u' \<Rightarrow> u' = u | _ \<Rightarrow> False) (trace w))"

text \<open>The number of session bootstraps: one \<^verbatim>\<open>requests.Session()\<close> each.\<close>

definition bootstraps :: "world \<Rightarrow> nat" where
  "bootstraps w = length (filter (\<lambda>ev. case ev of NewSession sid \<Rightarrow> True | _ \<Rightarrow> False) (trace w))"

section \<open>Properties of the normaliser\<close>

lemma cast_str_PStr:
  "cast_str s = PStr t \<Longrightarrow> t = s \<and> py_int s = None \<and> py_float s = None"
  by (auto simp: cast_str_def split: option.splits)

lemma cast_value_idem: "cast_value (cast_value v) = cast_value v"
proof (cases v)
  case (PStr s)
  show ?thesis
  proof (cases "cast_str s")
    case (PStr t)
    with cast_str_PStr [OF this] \<open>v = PStr s\<close> show ?thesis
      by (simp add: cast_value_def)
  qed (simp_all add: cast_value_def \<open>v = PStr s\<close>)
qed (simp_all add: cast_value_def)

text \<open>One step of the loop rewrites the first entry under the key, and nothing else.\<close>

lemma cast_step_Nil: "cast_step k [] = []"
  by simp

lemma cast_step_Cons:
  "cast_step k (p # r) = (if fst p = k then (k, cast_value (snd p)) # r else p # cast_step k r)"
  by (cases p) (auto simp: cast_value_def split: option.splits pyval.splits)

declare cast_step.simps [simp del]

lemma keys_cast_step: "map fst (cast_step k d) = map fst d"
  by (induction d) (auto simp: cast_step_Nil cast_step_Cons)

lemma map_of_cast_step:
  "map_of (cast_step a d) k = (if k = a then map_option cast_value (map_of d k) else map_of d k)"
  by (induction d) (auto simp: cast_step_Nil cast_step_Cons)

lemma cast_step_idem: "cast_step k (cast_step k d) = cast_step k d"
  by (induction d) (auto simp: cast_step_Nil cast_step_Cons cast_value_idem)

lemma cast_step_commute: "cast_step a (cast_step b d) = cast_step b (cast_step a d)"
  by (induction d) (auto simp: cast_step_Nil cast_step_Cons)

lemma keys_cast_loop: "map fst (cast_loop ks d) = map fst d"
  by (induction ks arbitrary: d) (simp_all add: keys_cast_step)

lemma map_of_cast_loop:
  "map_of (cast_loop ks d) k =
     (if k \<in> set ks then map_option cast_value (map_of d k) else map_of d k)"
proof (induction ks arbitrary: d)
  case Nil
  show ?case by simp
next
  case (Cons a ks)
  show ?case
    by (cases "map_of d k") (auto simp: Cons.IH map_of_cast_step cast_value_idem)
qed

lemma cast_step_loop_commute: "cast_step k (cast_loop ks d) = cast_loop ks (cast_step k d)"
  by (induction ks arbitrary: d) (simp_all add: cast_step_commute)

lemma cast_step_absorbed: "k \<in> set ks \<Longrightarrow> cast_step k (cast_loop ks d) = cast_loop ks d"
proof (induction ks arbitrary: d)
  case Nil
  then show ?case by simp
next
  case (Cons a ks)
  show ?case
  proof (cases "k = a")
    case True
    then show ?thesis
      by (simp add: cast_step_loop_commute cast_step_idem)
  next
    case False
    with Cons.prems have "k \<in> set ks" by simp
    then show ?thesis by (simp add: Cons.IH)
  qed
qed

lemma cast_loop_absorbed:
  "set js \<subseteq> set ks \<Longrightarrow> cast_loop js (cast_loop ks d) = cast_loop ks d"
  by (induction js) (simp_all add: cast_step_absorbed)

lemma keys_cast: "map fst (cast_intfloat_string_values_to_intfloat d) = map fst d"
  by (simp add: cast_intfloat_string_values_to_intfloat_def keys_cast_loop)

lemma map_of_cast:
  "map_of (cast_intfloat_string_values_to_intfloat d) k = map_option cast_value (map_of d k)"
proof (cases "map_of d k")
  case None
  then show ?thesis
    by (simp add: cast_intfloat_string_values_to_intfloat_def map_of_cast_loop)
next
  case (Some v)
  then have "k \<in> set (map fst d)"
    by (metis map_of_eq_None_iff option.distinct(1) set_map)
  then show ?thesis
    by (simp add: cast_intfloat_string_values_to_intfloat_def map_of_cast_loop)
qed

text \<open>The parsers on the three strings of the specification's example.\<close>

lemmas parse_defs = py_int_def py_float_def strip_def isspace_def numeral_strip_def
  numeral_space_def isdigit_def split_sign_def
  signed_digits_def unsigned_digits_def digits_value_def decimal_value_def break_at_def
  pow10_def casefold_def

lemma parse_ltp: "py_int ''123.45'' = None" "py_float ''123.45'' = Some (Nearest (12345 / 100))"
  by (simp_all add: parse_defs)

lemma parse_dash: "py_int ''-'' = None" "py_float ''-'' = None"
  by (simp_all add: parse_defs)

lemma parse_volume: "py_int ''1000'' = Some 1000"
  by (simp add: parse_defs)

lemma cast_example:
  "cast_intfloat_string_values_to_intfloat
     [(''ltp'', PStr ''123.45''), (''change'', PStr ''-''), (''volume'', PStr ''1000'')]
   = [(''ltp'', PFloat (Nearest (12345 / 100))), (''change'', PStr ''-''),
      (''volume'', PInt 1000)]"
  by (simp add: cast_intfloat_string_values_to_intfloat_def cast_step.simps cast_str_def
        parse_ltp parse_dash parse_volume)

text \<open>
  C5. The normaliser keeps the keys and their order, and the value under each key
  becomes: for a string, the integer it parses to, else the float it parses to, else
  the string itself; for any other value, that value. On the record
  \<^verbatim>\<open>{"ltp": "123.45", "change": "-", "volume": "1000"}\<close> the result is
  \<^verbatim>\<open>{"ltp": 123.45, "change": "-", "volume": 1000}\<close>: the dash stays the string.
\<close>

theorem cast_intfloat_int_then_float:
  "map fst (cast_intfloat_string_values_to_intfloat d) = map fst d
   \<and> map_of (cast_intfloat_string_values_to_intfloat d) k =
       (case map_of d k of
          None \<Rightarrow> None
        | Some v \<Rightarrow>
            Some (case v of
                    PStr s \<Rightarrow>
                      (case py_int s of
                         Some i \<Rightarrow> PInt i
                       | None \<Rightarrow> (case py_float s of Some f \<Rightarrow> PFloat f | None \<Rightarrow> PStr s))
                  | _ \<Rightarrow> v))
   \<and> cast_intfloat_string_values_to_intfloat
        [(''ltp'', PStr ''123.45''), (''change'', PStr ''-''), (''volume'', PStr ''1000'')]
      = [(''ltp'', PFloat (Nearest (12345 / 100))), (''change'', PStr ''-''),
         (''volume'', PInt 1000)]"
proof (intro conjI)
  show "map fst (cast_intfloat_string_values_to_intfloat d) = map fst d"
    by (rule keys_cast)
  show "map_of (cast_intfloat_string_values_to_intfloat d) k =
       (case map_of d k of
          None \<Rightarrow> None
        | Some v \<Rightarrow>
            Some (case v of
                    PStr s \<Rightarrow>
                      (case py_int s of
                         Some i \<Rightarrow> PInt i
                       | None \<Rightarrow> (case py_float s of Some f \<Rightarrow> PFloat f | None \<Rightarrow> PStr s))
                  | _ \<Rightarrow> v))"
    by (simp add: map_of_cast cast_value_def cast_str_def split: option.splits pyval.splits)
  show "cast_intfloat_string_values_to_intfloat
        [(''ltp'', PStr ''123.45''), (''change'', PStr ''-''), (''volume'', PStr ''1000'')]
      = [(''ltp'', PFloat (Nearest (12345 / 100))), (''change'', PStr ''-''),
         (''volume'', PInt 1000)]"
    by (rule cast_example)
qed

theorem cast_intfloat_int_then_float_witness:
  "map_of (cast_intfloat_string_values_to_intfloat
             [(''last'', PStr ''1_0''), (''open'', PInt 7), (''high'', PStr ''1,000'')]) ''last''
     = Some (PInt 10)
   \<and> map_of (cast_intfloat_string_values_to_intfloat
             [(''last'', PStr ''1_0''), (''open'', PInt 7), (''high'', PStr ''1,000'')]) ''high''
     = Some (PStr ''1,000'')"
  using cast_intfloat_int_then_float
          [of "[(''last'', PStr ''1_0''), (''open'', PInt 7), (''high'', PStr ''1,000'')]" "''last''"]
        cast_intfloat_int_then_float
          [of "[(''last'', PStr ''1_0''), (''open'', PInt 7), (''high'', PStr ''1,000'')]" "''high''"]
  by (simp add: parse_defs)

text \<open>
  C6. The normaliser is idempotent: normalising a normalised record changes nothing.
\<close>

theorem cast_intfloat_idempotent:
  "cast_intfloat_string_values_to_intfloat (cast_intfloat_string_values_to_intfloat d)
   = cast_intfloat_string_values_to_intfloat d"
  by (simp add: cast_intfloat_string_values_to_intfloat_def keys_cast_loop cast_loop_absorbed)

theorem cast_intfloat_idempotent_witness:
  "cast_intfloat_string_values_to_intfloat
     (cast_intfloat_string_values_to_intfloat [(''pChange'', PStr ''-0.5''), (''symbol'', PStr ''INFY'')])
   = [(''pChange'', PFloat (Nearest (- 1 / 2))), (''symbol'', PStr ''INFY'')]"
  using cast_intfloat_idempotent [of "[(''pChange'', PStr ''-0.5''), (''symbol'', PStr ''INFY'')]"]
  by (simp add: cast_intfloat_string_values_to_intfloat_def cast_step.simps cast_str_def parse_defs)

section \<open>Properties of the reference-data cache\<close>

lemma network_fetches_append_open:
  "network_fetches (w\<lparr>trace := trace w @ [OpenerOpen q]\<rparr>) = network_fetches w + 1"
  by (simp add: network_fetches_def)

lemma getattr_setattr: "getattr_CODECACHE w (setattr_CODECACHE self v) = v"
  by (simp add: getattr_CODECACHE_def setattr_CODECACHE_def)

lemma getattr_trace: "getattr_CODECACHE (w\<lparr>trace := t\<rparr>) self = getattr_CODECACHE w self"
  by (simp add: getattr_CODECACHE_def split: option.splits)

text \<open>A line with a comma splits into at least two fields, so the unpacking never fails.\<close>

lemma split_on_two:
  "sep \<in> set s \<Longrightarrow> \<exists>a b rest. split_on sep s = a # b # rest"
proof (induction s)
  case Nil
  then show ?case by simp
next
  case (Cons c cs)
  show ?case
  proof (cases "c = sep")
    case True
    then show ?thesis by (cases cs) (auto split: list.splits)
  next
    case False
    with Cons.prems have "sep \<in> set cs" by simp
    from Cons.IH [OF this] False show ?thesis by auto
  qed
qed

lemma stock_codes_loop_total: "\<exists>d. stock_codes_loop ls res_dict = Inr d"
proof (induction ls arbitrary: res_dict)
  case Nil
  show ?case by simp
next
  case (Cons line rest)
  show ?case
  proof (cases "line \<noteq> [] \<and> CHR '','' \<in> set line")
    case True
    then obtain a b zs where "split_on (CHR '','') line = a # b # zs"
      using split_on_two by blast
    with True Cons.IH show ?thesis by simp
  next
    case False
    with Cons.IH show ?thesis by auto
  qed
qed

lemma get_stock_codes_hit:
  "getattr_CODECACHE w self \<noteq> PNone \<Longrightarrow>
   get_stock_codes w self True j r = (Inr (render_response (getattr_CODECACHE w self) j), w, self)"
  by (simp add: get_stock_codes_def)

lemma get_fno_lot_sizes_hit:
  "getattr_CODECACHE w self \<noteq> PNone \<Longrightarrow>
   get_fno_lot_sizes w self True j r = (Inr (render_response (getattr_CODECACHE w self) j), w, self)"
  by (simp add: get_fno_lot_sizes_def)

lemma get_stock_codes_Inr:
  assumes "get_stock_codes w self c j r = (Inr v, w1, self1)"
  shows "getattr_CODECACHE w1 self1 \<noteq> PNone \<and> v = render_response (getattr_CODECACHE w1 self1) j"
  using assms
  by (auto simp: get_stock_codes_def Let_def getattr_setattr getattr_trace
           split: if_splits sum.splits option.splits)

lemma get_stock_codes_fetches_le:
  "network_fetches (fst (snd (get_stock_codes w self c j r))) \<le> network_fetches w + 1"
  by (auto simp: get_stock_codes_def Let_def network_fetches_append_open
           split: sum.splits option.splits)

lemma get_stock_codes_uncached_fetches:
  "network_fetches (fst (snd (get_stock_codes w self False j r))) = network_fetches w + 1"
  by (auto simp: get_stock_codes_def Let_def network_fetches_append_open
           split: sum.splits option.splits)

lemma get_stock_codes_miss_fetches:
  "getattr_CODECACHE w self = PNone \<Longrightarrow>
   network_fetches (fst (snd (get_stock_codes w self c j r))) = network_fetches w + 1"
  by (auto simp: get_stock_codes_def Let_def network_fetches_append_open
           split: sum.splits option.splits)

lemma get_stock_codes_class_attr:
  "Nse_CODECACHE (fst (snd (get_stock_codes w self c j r))) = Nse_CODECACHE w"
  by (auto simp: get_stock_codes_def Let_def split: sum.splits option.splits)

lemma get_fno_lot_sizes_class_attr:
  "Nse_CODECACHE (fst (snd (get_fno_lot_sizes w self c j r))) = Nse_CODECACHE w"
  by (auto simp: get_fno_lot_sizes_def Let_def split: sum.splits option.splits)

text \<open>The evaluation of the two products on small CSV texts, for the examples below.\<close>

lemmas cache_defs = getattr_CODECACHE_def setattr_CODECACHE_def render_response_def
  network_fetches_def

lemma stock_codes_example:
  "get_stock_codes \<lparr>Nse_CODECACHE = PNone, sessions_created = n, trace = t\<rparr>
      \<lparr>session_refresh_interval = 120, session = k, session_init_time = 0, CODECACHE = None\<rparr>
      True False (Inr (Some (''INFY,Infosys Limited,EQ'' @ [CHR 0x0A] @ ''TCS,Tata Consultancy'')))
   = (Inr (Native (PDict [(''INFY'', PStr ''Infosys Limited''), (''TCS'', PStr ''Tata Consultancy'')])),
      \<lparr>Nse_CODECACHE = PNone, sessions_created = n, trace = t @ [OpenerOpen req]\<rparr>,
      \<lparr>session_refresh_interval = 120, session = k, session_init_time = 0,
        CODECACHE = Some (PDict [(''INFY'', PStr ''Infosys Limited''),
                                 (''TCS'', PStr ''Tata Consultancy'')])\<rparr>)"
  by (simp add: get_stock_codes_def cache_defs)

text \<open>
  C2, as the code has it. Every call of \<^verbatim>\<open>get_stock_codes\<close> sends at most one request,
  and a call with \<^verbatim>\<open>cached=False\<close> sends exactly one, whatever the cache holds. With
  \<^verbatim>\<open>cached=True\<close>: when the cache holds a mapping the call sends nothing and returns
  it; when the cache is empty and the transport answers with a response, the call sends
  one request, stores the parsed mapping in the instance and returns it, and the next
  call returns that mapping and sends nothing, whatever the network would answer; when
  the cache is empty and the transport fails, the call fails, the cache stays empty, and
  the next call sends a request again.
\<close>

theorem get_stock_codes_cached_twice:
  "network_fetches (fst (snd (get_stock_codes w self c j r))) \<le> network_fetches w + 1
   \<and> network_fetches (fst (snd (get_stock_codes w self False j r))) = network_fetches w + 1
   \<and> (getattr_CODECACHE w self \<noteq> PNone \<longrightarrow>
        get_stock_codes w self True j r
          = (Inr (render_response (getattr_CODECACHE w self) j), w, self))
   \<and> (getattr_CODECACHE w self = PNone \<longrightarrow>
        (\<exists>d. stock_codes_loop (split_on (CHR 0x0A) csv) [] = Inr d
           \<and> get_stock_codes w self True j (Inr (Some csv))
               = (Inr (render_response (PDict d) j),
                  w\<lparr>trace := trace w @ [OpenerOpen req]\<rparr>,
                  self\<lparr>CODECACHE := Some (PDict d)\<rparr>)
           \<and> get_stock_codes (w\<lparr>trace := trace w @ [OpenerOpen req]\<rparr>)
                 (self\<lparr>CODECACHE := Some (PDict d)\<rparr>) True j r2
               = (Inr (render_response (PDict d) j),
                  w\<lparr>trace := trace w @ [OpenerOpen req]\<rparr>,
                  self\<lparr>CODECACHE := Some (PDict d)\<rparr>)
           \<and> network_fetches (w\<lparr>trace := trace w @ [OpenerOpen req]\<rparr>) = network_fetches w + 1))
   \<and> (getattr_CODECACHE w self = PNone \<longrightarrow> r = Inl e \<or> r = Inr None \<longrightarrow>
        get_stock_codes w self True j r
          = (Inl (case r of Inl e' \<Rightarrow> e' | Inr x \<Rightarrow> Exception ''no response received''),
             w\<lparr>trace := trace w @ [OpenerOpen req]\<rparr>, self)
        \<and> network_fetches
             (fst (snd (get_stock_codes (w\<lparr>trace := trace w @ [OpenerOpen req]\<rparr>) self True j r2)))
           = network_fetches w + 2)"
proof (intro conjI impI)
  show "network_fetches (fst (snd (get_stock_codes w self c j r))) \<le> network_fetches w + 1"
    by (rule get_stock_codes_fetches_le)
  show "network_fetches (fst (snd (get_stock_codes w self False j r))) = network_fetches w + 1"
    by (rule get_stock_codes_uncached_fetches)
next
  assume "getattr_CODECACHE w self \<noteq> PNone"
  then show "get_stock_codes w self True j r
          = (Inr (render_response (getattr_CODECACHE w self) j), w, self)"
    by (rule get_stock_codes_hit)
next
  assume empty: "getattr_CODECACHE w self = PNone"
  obtain d where d: "stock_codes_loop (split_on (CHR 0x0A) csv) [] = Inr d"
    using stock_codes_loop_total by blast
  let ?w1 = "w\<lparr>trace := trace w @ [OpenerOpen req]\<rparr>"
  let ?s1 = "self\<lparr>CODECACHE := Some (PDict d)\<rparr>"
  have first: "get_stock_codes w self True j (Inr (Some csv))
               = (Inr (render_response (PDict d) j), ?w1, ?s1)"
    using empty d
    by (simp add: get_stock_codes_def Let_def getattr_setattr setattr_CODECACHE_def
          getattr_CODECACHE_def)
  have "getattr_CODECACHE ?w1 ?s1 = PDict d"
    by (simp add: getattr_CODECACHE_def)
  then have second: "get_stock_codes ?w1 ?s1 True j r2
               = (Inr (render_response (PDict d) j), ?w1, ?s1)"
    by (simp add: get_stock_codes_hit)
  have "network_fetches ?w1 = network_fetches w + 1"
    by (rule network_fetches_append_open)
  with d first second
  show "\<exists>d. stock_codes_loop (split_on (CHR 0x0A) csv) [] = Inr d
           \<and> get_stock_codes w self True j (Inr (Some csv))
               = (Inr (render_response (PDict d) j),
                  w\<lparr>trace := trace w @ [OpenerOpen req]\<rparr>,
                  self\<lparr>CODECACHE := Some (PDict d)\<rparr>)
           \<and> get_stock_codes (w\<lparr>trace := trace w @ [OpenerOpen req]\<rparr>)
                 (self\<lparr>CODECACHE := Some (PDict d)\<rparr>) True j r2
               = (Inr (render_response (PDict d) j),
                  w\<lparr>trace := trace w @ [OpenerOpen req]\<rparr>,
                  self\<lparr>CODECACHE := Some (PDict d)\<rparr>)
           \<and> network_fetches (w\<lparr>trace := trace w @ [OpenerOpen req]\<rparr>) = network_fetches w + 1"
    by blast
next
  assume empty: "getattr_CODECACHE w self = PNone" and fail: "r = Inl e \<or> r = Inr None"
  from empty fail show "get_stock_codes w self True j r
          = (Inl (case r of Inl e' \<Rightarrow> e' | Inr x \<Rightarrow> Exception ''no response received''),
             w\<lparr>trace := trace w @ [OpenerOpen req]\<rparr>, self)"
    by (auto simp: get_stock_codes_def Let_def)
  from empty have "getattr_CODECACHE (w\<lparr>trace := trace w @ [OpenerOpen req]\<rparr>) self = PNone"
    by (simp add: getattr_trace)
  from get_stock_codes_miss_fetches [OF this, of True j r2]
  show "network_fetches
             (fst (snd (get_stock_codes (w\<lparr>trace := trace w @ [OpenerOpen req]\<rparr>) self True j r2)))
           = network_fetches w + 2"
    by (simp add: network_fetches_append_open)
qed

theorem get_stock_codes_cached_twice_witness:
  "get_stock_codes
      \<lparr>Nse_CODECACHE = PNone, sessions_created = 1, trace = []\<rparr>
      \<lparr>session_refresh_interval = 120, session = 0, session_init_time = 0, CODECACHE = None\<rparr>
      True False (Inr (Some (''INFY,Infosys Limited,EQ'' @ [CHR 0x0A] @ ''TCS,Tata Consultancy'')))
   = (Inr (Native (PDict [(''INFY'', PStr ''Infosys Limited''), (''TCS'', PStr ''Tata Consultancy'')])),
      \<lparr>Nse_CODECACHE = PNone, sessions_created = 1, trace = [OpenerOpen req]\<rparr>,
      \<lparr>session_refresh_interval = 120, session = 0, session_init_time = 0,
        CODECACHE = Some (PDict [(''INFY'', PStr ''Infosys Limited''),
                                 (''TCS'', PStr ''Tata Consultancy'')])\<rparr>)
   \<and> get_stock_codes
      \<lparr>Nse_CODECACHE = PNone, sessions_created = 1, trace = [OpenerOpen req]\<rparr>
      \<lparr>session_refresh_interval = 120, session = 0, session_init_time = 0,
        CODECACHE = Some (PDict [(''INFY'', PStr ''Infosys Limited''),
                                 (''TCS'', PStr ''Tata Consultancy'')])\<rparr>
      True False (Inl (TransportError ''unreachable''))
   = (Inr (Native (PDict [(''INFY'', PStr ''Infosys Limited''), (''TCS'', PStr ''Tata Consultancy'')])),
      \<lparr>Nse_CODECACHE = PNone, sessions_created = 1, trace = [OpenerOpen req]\<rparr>,
      \<lparr>session_refresh_interval = 120, session = 0, session_init_time = 0,
        CODECACHE = Some (PDict [(''INFY'', PStr ''Infosys Limited''),
                                 (''TCS'', PStr ''Tata Consultancy'')])\<rparr>)
   \<and> network_fetches \<lparr>Nse_CODECACHE = PNone, sessions_created = 1, trace = [OpenerOpen req]\<rparr>
       = network_fetches \<lparr>Nse_CODECACHE = PNone, sessions_created = 1, trace = []\<rparr> + 1"
proof -
  let ?w = "\<lparr>Nse_CODECACHE = PNone, sessions_created = 1, trace = []\<rparr>"
  let ?s = "\<lparr>session_refresh_interval = 120, session = 0, session_init_time = 0,
             CODECACHE = None\<rparr>"
  let ?text = "''INFY,Infosys Limited,EQ'' @ [CHR 0x0A] @ ''TCS,Tata Consultancy''"
  have empty: "getattr_CODECACHE ?w ?s = PNone"
    by (simp add: getattr_CODECACHE_def)
  have parsed: "stock_codes_loop (split_on (CHR 0x0A) ?text) []
      = Inr [(''INFY'', PStr ''Infosys Limited''), (''TCS'', PStr ''Tata Consultancy'')]"
    by simp
  from get_stock_codes_cached_twice
         [where w = ?w and self = ?s and j = False and csv = ?text
            and ?r2.0 = "Inl (TransportError ''unreachable'')"]
       empty parsed
  show ?thesis
    by (auto simp: render_response_def)
qed

text \<open>
  Two calls with \<^verbatim>\<open>cached=True\<close> from an empty cache, no forced refresh between them:
  the transport returns no response to the first, so the second sends a request too.
\<close>

theorem get_stock_codes_failed_first_counterexample:
  "get_stock_codes \<lparr>Nse_CODECACHE = PNone, sessions_created = 1, trace = []\<rparr>
      \<lparr>session_refresh_interval = 120, session = 0, session_init_time = 0, CODECACHE = None\<rparr>
      True False (Inr None)
   = (Inl (Exception ''no response received''),
      \<lparr>Nse_CODECACHE = PNone, sessions_created = 1, trace = [OpenerOpen req]\<rparr>,
      \<lparr>session_refresh_interval = 120, session = 0, session_init_time = 0, CODECACHE = None\<rparr>)
   \<and> get_stock_codes \<lparr>Nse_CODECACHE = PNone, sessions_created = 1, trace = [OpenerOpen req]\<rparr>
      \<lparr>session_refresh_interval = 120, session = 0, session_init_time = 0, CODECACHE = None\<rparr>
      True False (Inr (Some ''INFY,Infosys Limited''))
   = (Inr (Native (PDict [(''INFY'', PStr ''Infosys Limited'')])),
      \<lparr>Nse_CODECACHE = PNone, sessions_created = 1, trace = [OpenerOpen req, OpenerOpen req]\<rparr>,
      \<lparr>session_refresh_interval = 120, session = 0, session_init_time = 0,
        CODECACHE = Some (PDict [(''INFY'', PStr ''Infosys Limited'')])\<rparr>)
   \<and> network_fetches
        \<lparr>Nse_CODECACHE = PNone, sessions_created = 1, trace = [OpenerOpen req, OpenerOpen req]\<rparr>
       = 2"
  by (simp add: get_stock_codes_def cache_defs)



text \<open>
  C3. The two products read and write the same attribute. Once \<^verbatim>\<open>get_stock_codes\<close> has
  returned a value, \<^verbatim>\<open>get_fno_lot_sizes(cached=True)\<close> returns that very value, the
  symbol directory, and sends no request.
\<close>

theorem lot_sizes_served_from_symbol_directory:
  assumes "get_stock_codes w self c False r = (Inr v, w1, self1)"
  shows "get_fno_lot_sizes w1 self1 True False r2 = (Inr v, w1, self1)"
proof -
  from get_stock_codes_Inr [OF assms]
  show ?thesis by (simp add: get_fno_lot_sizes_hit)
qed

theorem lot_sizes_served_from_symbol_directory_witness:
  "get_fno_lot_sizes
      \<lparr>Nse_CODECACHE = PNone, sessions_created = 1, trace = [OpenerOpen req]\<rparr>
      \<lparr>session_refresh_interval = 120, session = 0, session_init_time = 0,
        CODECACHE = Some (PDict [(''INFY'', PStr ''Infosys Limited''),
                                 (''TCS'', PStr ''Tata Consultancy'')])\<rparr>
      True False (Inr (Some (''INFOSYS,INFY,400'')))
   = (Inr (Native (PDict [(''INFY'', PStr ''Infosys Limited''), (''TCS'', PStr ''Tata Consultancy'')])),
      \<lparr>Nse_CODECACHE = PNone, sessions_created = 1, trace = [OpenerOpen req]\<rparr>,
      \<lparr>session_refresh_interval = 120, session = 0, session_init_time = 0,
        CODECACHE = Some (PDict [(''INFY'', PStr ''Infosys Limited''),
                                 (''TCS'', PStr ''Tata Consultancy'')])\<rparr>)"
  using lot_sizes_served_from_symbol_directory [OF stock_codes_example [of 1 "[]" 0]]
  by simp

text \<open>
  C9, as the code has it. No call writes the class attribute. So while the class
  attribute is \<^verbatim>\<open>None\<close>, as the class body sets it, an instance that holds no entry of
  its own sends its own request on \<^verbatim>\<open>get_stock_codes(cached=True)\<close>, whatever another
  instance has fetched before.
\<close>

theorem codecache_is_per_instance:
  "Nse_CODECACHE (fst (snd (get_stock_codes w a c j r))) = Nse_CODECACHE w
   \<and> Nse_CODECACHE (fst (snd (get_fno_lot_sizes w a c j r))) = Nse_CODECACHE w
   \<and> (Nse_CODECACHE w = PNone \<longrightarrow> CODECACHE b = None \<longrightarrow>
        network_fetches (fst (snd (get_stock_codes (fst (snd (get_stock_codes w a c j r))) b True j2 r2)))
        = network_fetches (fst (snd (get_stock_codes w a c j r))) + 1)"
proof (intro conjI impI)
  show "Nse_CODECACHE (fst (snd (get_stock_codes w a c j r))) = Nse_CODECACHE w"
    by (rule get_stock_codes_class_attr)
  show "Nse_CODECACHE (fst (snd (get_fno_lot_sizes w a c j r))) = Nse_CODECACHE w"
    by (rule get_fno_lot_sizes_class_attr)
  assume "Nse_CODECACHE w = PNone" and "CODECACHE b = None"
  then have "getattr_CODECACHE (fst (snd (get_stock_codes w a c j r))) b = PNone"
    by (simp add: getattr_CODECACHE_def get_stock_codes_class_attr)
  then show "network_fetches (fst (snd (get_stock_codes (fst (snd (get_stock_codes w a c j r))) b True j2 r2)))
        = network_fetches (fst (snd (get_stock_codes w a c j r))) + 1"
    by (rule get_stock_codes_miss_fetches)
qed

theorem codecache_is_per_instance_witness:
  "network_fetches (fst (snd (get_stock_codes
       \<lparr>Nse_CODECACHE = PNone, sessions_created = 2, trace = [OpenerOpen req]\<rparr>
       \<lparr>session_refresh_interval = 120, session = 1, session_init_time = 0, CODECACHE = None\<rparr>
       True False (Inr None)))) = 2"
proof -
  let ?w = "\<lparr>Nse_CODECACHE = PNone, sessions_created = 2, trace = []\<rparr>"
  let ?a = "\<lparr>session_refresh_interval = 120, session = 0, session_init_time = 0, CODECACHE = None\<rparr>"
  let ?b = "\<lparr>session_refresh_interval = 120, session = 1, session_init_time = 0, CODECACHE = None\<rparr>"
  let ?r = "Inr (Some (''INFY,Infosys Limited,EQ'' @ [CHR 0x0A] @ ''TCS,Tata Consultancy''))"
  from codecache_is_per_instance [of ?w ?a True False ?r ?b False "Inr None"]
  have "network_fetches (fst (snd (get_stock_codes (fst (snd (get_stock_codes ?w ?a True False ?r))) ?b True False (Inr None))))
        = network_fetches (fst (snd (get_stock_codes ?w ?a True False ?r))) + 1"
    by simp
  then show ?thesis
    using stock_codes_example [of 2 "[]" 0] by (simp add: network_fetches_def)
qed

theorem codecache_shared_counterexample:
  "get_stock_codes \<lparr>Nse_CODECACHE = PNone, sessions_created = 2, trace = []\<rparr>
      \<lparr>session_refresh_interval = 120, session = 0, session_init_time = 0, CODECACHE = None\<rparr>
      True False (Inr (Some (''INFY,Infosys Limited,EQ'' @ [CHR 0x0A] @ ''TCS,Tata Consultancy'')))
   = (Inr (Native (PDict [(''INFY'', PStr ''Infosys Limited''), (''TCS'', PStr ''Tata Consultancy'')])),
      \<lparr>Nse_CODECACHE = PNone, sessions_created = 2, trace = [OpenerOpen req]\<rparr>,
      \<lparr>session_refresh_interval = 120, session = 0, session_init_time = 0,
        CODECACHE = Some (PDict [(''INFY'', PStr ''Infosys Limited''),
                                 (''TCS'', PStr ''Tata Consultancy'')])\<rparr>)
   \<and> get_stock_codes \<lparr>Nse_CODECACHE = PNone, sessions_created = 2, trace = [OpenerOpen req]\<rparr>
      \<lparr>session_refresh_interval = 120, session = 1, session_init_time = 0, CODECACHE = None\<rparr>
      True False (Inr (Some ''WIPRO,Wipro Limited''))
   = (Inr (Native (PDict [(''WIPRO'', PStr ''Wipro Limited'')])),
      \<lparr>Nse_CODECACHE = PNone, sessions_created = 2, trace = [OpenerOpen req, OpenerOpen req]\<rparr>,
      \<lparr>session_refresh_interval = 120, session = 1, session_init_time = 0,
        CODECACHE = Some (PDict [(''WIPRO'', PStr ''Wipro Limited'')])\<rparr>)"
  by (simp add: get_stock_codes_def cache_defs)

section \<open>Properties of the symbol check\<close>

text \<open>
  C7, as the code has it. For a non-empty code, \<^verbatim>\<open>is_valid_code\<close> returns \<^verbatim>\<open>True\<close> when
  the upper-cased code is a key of the directory that \<^verbatim>\<open>get_stock_codes()\<close> returns and
  \<^verbatim>\<open>False\<close> when it is not, and it fails when that call fails. For the empty code the
  guard skips the lookup: the state is untouched and the result is not \<^verbatim>\<open>True\<close>.
\<close>

theorem is_valid_code_nonempty:
  "(code \<noteq> [] \<longrightarrow> get_stock_codes w self True False r = (Inr (Native (PDict d)), w1, self1) \<longrightarrow>
      is_valid_code w self r code = (Inr (PBool (upper code \<in> set (map fst d))), w1, self1))
   \<and> (code \<noteq> [] \<longrightarrow> get_stock_codes w self True False r = (Inl e, w1, self1) \<longrightarrow>
      is_valid_code w self r code = (Inl e, w1, self1))
   \<and> fst (is_valid_code w self r []) \<noteq> Inr (PBool True)
   \<and> snd (is_valid_code w self r []) = (w, self)"
  by (simp add: is_valid_code_def)

theorem is_valid_code_nonempty_witness:
  "is_valid_code \<lparr>Nse_CODECACHE = PNone, sessions_created = 1, trace = []\<rparr>
      \<lparr>session_refresh_interval = 120, session = 0, session_init_time = 0, CODECACHE = None\<rparr>
      (Inr (Some (''INFY,Infosys Limited,EQ'' @ [CHR 0x0A] @ ''TCS,Tata Consultancy''))) ''infy''
   = (Inr (PBool True),
      \<lparr>Nse_CODECACHE = PNone, sessions_created = 1, trace = [OpenerOpen req]\<rparr>,
      \<lparr>session_refresh_interval = 120, session = 0, session_init_time = 0,
        CODECACHE = Some (PDict [(''INFY'', PStr ''Infosys Limited''),
                                 (''TCS'', PStr ''Tata Consultancy'')])\<rparr>)"
  using is_valid_code_nonempty
          [of "''infy''" "\<lparr>Nse_CODECACHE = PNone, sessions_created = 1, trace = []\<rparr>"
              "\<lparr>session_refresh_interval = 120, session = 0, session_init_time = 0,
                CODECACHE = None\<rparr>"
              "Inr (Some (''INFY,Infosys Limited,EQ'' @ [CHR 0x0A] @ ''TCS,Tata Consultancy''))"
              "[(''INFY'', PStr ''Infosys Limited''), (''TCS'', PStr ''Tata Consultancy'')]"]
        stock_codes_example [of 1 "[]" 0]
  by (simp add: upper_def)

text \<open>
  The empty code against a cached directory: with the empty string among the keys the
  result is \<^verbatim>\<open>None\<close>, not \<^verbatim>\<open>True\<close>; without it the result is \<^verbatim>\<open>None\<close>, not \<^verbatim>\<open>False\<close>.
\<close>

theorem is_valid_code_empty_counterexample:
  "is_valid_code \<lparr>Nse_CODECACHE = PNone, sessions_created = 1, trace = []\<rparr>
      \<lparr>session_refresh_interval = 120, session = 0, session_init_time = 0,
        CODECACHE = Some (PDict [('''', PStr ''Unnamed''), (''INFY'', PStr ''Infosys Limited'')])\<rparr>
      (Inr None) ''''
   = (Inr PNone,
      \<lparr>Nse_CODECACHE = PNone, sessions_created = 1, trace = []\<rparr>,
      \<lparr>session_refresh_interval = 120, session = 0, session_init_time = 0,
        CODECACHE = Some (PDict [('''', PStr ''Unnamed''), (''INFY'', PStr ''Infosys Limited'')])\<rparr>)
   \<and> upper '''' \<in> set (map fst [('''', PStr ''Unnamed''), (''INFY'', PStr ''Infosys Limited'')])
   \<and> is_valid_code \<lparr>Nse_CODECACHE = PNone, sessions_created = 1, trace = []\<rparr>
      \<lparr>session_refresh_interval = 120, session = 0, session_init_time = 0,
        CODECACHE = Some (PDict [(''INFY'', PStr ''Infosys Limited'')])\<rparr>
      (Inr None) ''''
   = (Inr PNone,
      \<lparr>Nse_CODECACHE = PNone, sessions_created = 1, trace = []\<rparr>,
      \<lparr>session_refresh_interval = 120, session = 0, session_init_time = 0,
        CODECACHE = Some (PDict [(''INFY'', PStr ''Infosys Limited'')])\<rparr>)
   \<and> upper '''' \<notin> set (map fst [(''INFY'', PStr ''Infosys Limited'')])
   \<and> PNone \<noteq> PBool False"
  by (simp add: is_valid_code_def upper_def)

section \<open>Properties of the session\<close>

lemma timedelta_seconds_within_day:
  assumes "0 \<le> d" and "d < 86400000000"
  shows "timedelta_seconds d = d div 1000000"
proof -
  from assms have "0 \<le> d div 1000000" and "d div 1000000 < 86400"
    by simp_all
  then show ?thesis
    by (simp add: timedelta_seconds_def)
qed

lemma bootstraps_append:
  "bootstraps (w\<lparr>trace := trace w @ [SessionGet sid u]\<rparr>) = bootstraps w"
  "bootstraps (w\<lparr>sessions_created := n,
                 trace := trace w @ [NewSession sid, SessionGet sid NSE_HOME, SessionGet sid u]\<rparr>)
   = bootstraps w + 1"
  by (simp_all add: bootstraps_def)

lemma fetch_fresh:
  "timedelta_seconds (now env - session_init_time self) < session_refresh_interval self \<Longrightarrow>
   fetch w self env u = (reply env, w\<lparr>trace := trace w @ [SessionGet (session self) u]\<rparr>, self)"
  by (simp add: fetch_def session_get_def)

lemma fetch_stale:
  "\<not> timedelta_seconds (now env - session_init_time self) < session_refresh_interval self \<Longrightarrow>
   home_reply env = None \<Longrightarrow>
   fetch w self env u =
     (reply env,
      w\<lparr>sessions_created := Suc (sessions_created w),
        trace := trace w @ [NewSession (sessions_created w),
                            SessionGet (sessions_created w) NSE_HOME,
                            SessionGet (sessions_created w) u]\<rparr>,
      self\<lparr>session := sessions_created w, session_init_time := boot_now env\<rparr>)"
  by (simp add: fetch_def session_get_def create_session_def Let_def)

lemma fetch_stale_failed:
  "\<not> timedelta_seconds (now env - session_init_time self) < session_refresh_interval self \<Longrightarrow>
   home_reply env = Some e \<Longrightarrow>
   fetch w self env u =
     (Inl e,
      w\<lparr>sessions_created := Suc (sessions_created w),
        trace := trace w @ [NewSession (sessions_created w),
                            SessionGet (sessions_created w) NSE_HOME]\<rparr>,
      self\<lparr>session := sessions_created w\<rparr>)"
  by (simp add: fetch_def create_session_def Let_def)

text \<open>
  C1, as the code has it. Staleness is measured from the creation time of the session,
  not from the previous call. Within a day of the creation: a call made less than the
  refresh interval after it is sent on the existing session, with no bootstrap, and so
  is a second such call; a call made when the interval has elapsed bootstraps exactly
  once, whatever the warm-up request does, and the instance then holds a new session.
  When the warm-up request comes back the call is sent on the new session, whose
  creation time is the clock reading taken after the warm-up; when it raises, the error
  goes to the caller, the request is not sent and the creation time stays as it was.
\<close>

theorem fetch_session_lifecycle:
  assumes "session self < sessions_created w"
      and "0 \<le> now env - session_init_time self"
      and "now env - session_init_time self < 86400000000"
  shows "((now env - session_init_time self) div 1000000 < session_refresh_interval self \<longrightarrow>
            fetch w self env u
              = (reply env, w\<lparr>trace := trace w @ [SessionGet (session self) u]\<rparr>, self)
            \<and> bootstraps (fst (snd (fetch w self env u))) = bootstraps w
            \<and> (0 \<le> now env2 - session_init_time self
                 \<and> now env2 - session_init_time self < 86400000000
                 \<and> (now env2 - session_init_time self) div 1000000 < session_refresh_interval self \<longrightarrow>
                fetch (w\<lparr>trace := trace w @ [SessionGet (session self) u]\<rparr>) self env2 u2
                  = (reply env2,
                     w\<lparr>trace := trace w @ [SessionGet (session self) u, SessionGet (session self) u2]\<rparr>,
                     self)))
         \<and> (session_refresh_interval self \<le> (now env - session_init_time self) div 1000000 \<longrightarrow>
              bootstraps (fst (snd (fetch w self env u))) = bootstraps w + 1
              \<and> session (snd (snd (fetch w self env u))) = sessions_created w
              \<and> session (snd (snd (fetch w self env u))) \<noteq> session self
              \<and> (home_reply env = None \<longrightarrow>
                   fetch w self env u
                     = (reply env,
                        w\<lparr>sessions_created := Suc (sessions_created w),
                          trace := trace w @ [NewSession (sessions_created w),
                                              SessionGet (sessions_created w) NSE_HOME,
                                              SessionGet (sessions_created w) u]\<rparr>,
                        self\<lparr>session := sessions_created w, session_init_time := boot_now env\<rparr>))
              \<and> (home_reply env = Some e \<longrightarrow>
                   fetch w self env u
                     = (Inl e,
                        w\<lparr>sessions_created := Suc (sessions_created w),
                          trace := trace w @ [NewSession (sessions_created w),
                                              SessionGet (sessions_created w) NSE_HOME]\<rparr>,
                        self\<lparr>session := sessions_created w\<rparr>)))"
proof (intro conjI impI)
  assume a: "(now env - session_init_time self) div 1000000 < session_refresh_interval self"
  with assms(2,3) have eq: "fetch w self env u
              = (reply env, w\<lparr>trace := trace w @ [SessionGet (session self) u]\<rparr>, self)"
    by (simp add: fetch_fresh timedelta_seconds_within_day)
  show "fetch w self env u
              = (reply env, w\<lparr>trace := trace w @ [SessionGet (session self) u]\<rparr>, self)"
    by (rule eq)
  show "bootstraps (fst (snd (fetch w self env u))) = bootstraps w"
    by (simp add: eq bootstraps_append)
  assume b: "0 \<le> now env2 - session_init_time self
                 \<and> now env2 - session_init_time self < 86400000000
                 \<and> (now env2 - session_init_time self) div 1000000 < session_refresh_interval self"
  then have "timedelta_seconds (now env2 - session_init_time self) < session_refresh_interval self"
    by (simp add: timedelta_seconds_within_day)
  from fetch_fresh [OF this, of "w\<lparr>trace := trace w @ [SessionGet (session self) u]\<rparr>" u2]
  show "fetch (w\<lparr>trace := trace w @ [SessionGet (session self) u]\<rparr>) self env2 u2
                  = (reply env2,
                     w\<lparr>trace := trace w @ [SessionGet (session self) u, SessionGet (session self) u2]\<rparr>,
                     self)"
    by simp
next
  assume a: "session_refresh_interval self \<le> (now env - session_init_time self) div 1000000"
  from a assms(2,3)
  have stale: "\<not> timedelta_seconds (now env - session_init_time self) < session_refresh_interval self"
    by (simp add: timedelta_seconds_within_day)
  show "bootstraps (fst (snd (fetch w self env u))) = bootstraps w + 1"
  proof (cases "home_reply env")
    case None
    from fetch_stale [OF stale None, of w u] show ?thesis
      by (simp add: bootstraps_append)
  next
    case (Some e')
    from fetch_stale_failed [OF stale Some, of w u] show ?thesis
      by (simp add: bootstraps_def)
  qed
  show new: "session (snd (snd (fetch w self env u))) = sessions_created w"
  proof (cases "home_reply env")
    case None
    from fetch_stale [OF stale None, of w u] show ?thesis by simp
  next
    case (Some e')
    from fetch_stale_failed [OF stale Some, of w u] show ?thesis by simp
  qed
  from new assms(1) show "session (snd (snd (fetch w self env u))) \<noteq> session self"
    by simp
  {
    assume h: "home_reply env = None"
    show "fetch w self env u
                     = (reply env,
                        w\<lparr>sessions_created := Suc (sessions_created w),
                          trace := trace w @ [NewSession (sessions_created w),
                                              SessionGet (sessions_created w) NSE_HOME,
                                              SessionGet (sessions_created w) u]\<rparr>,
                        self\<lparr>session := sessions_created w, session_init_time := boot_now env\<rparr>)"
      by (rule fetch_stale [OF stale h])
  }
  {
    assume h: "home_reply env = Some e"
    show "fetch w self env u
                     = (Inl e,
                        w\<lparr>sessions_created := Suc (sessions_created w),
                          trace := trace w @ [NewSession (sessions_created w),
                                              SessionGet (sessions_created w) NSE_HOME]\<rparr>,
                        self\<lparr>session := sessions_created w\<rparr>)"
      by (rule fetch_stale_failed [OF stale h])
  }
qed

theorem fetch_session_lifecycle_witness:
  "fetch \<lparr>Nse_CODECACHE = PNone, sessions_created = 1, trace = []\<rparr>
      \<lparr>session_refresh_interval = 120, session = 0, session_init_time = 0, CODECACHE = None\<rparr>
      \<lparr>now = 300000000, home_reply = None, boot_now = 300400000,
        reply = Inr (Response (Inr (PDict [])))\<rparr> TOP_GAINERS_URL
   = (Inr (Response (Inr (PDict []))),
      \<lparr>Nse_CODECACHE = PNone, sessions_created = 2,
        trace = [NewSession 1, SessionGet 1 NSE_HOME, SessionGet 1 TOP_GAINERS_URL]\<rparr>,
      \<lparr>session_refresh_interval = 120, session = 1, session_init_time = 300400000,
        CODECACHE = None\<rparr>)
   \<and> fetch \<lparr>Nse_CODECACHE = PNone, sessions_created = 1, trace = []\<rparr>
      \<lparr>session_refresh_interval = 120, session = 0, session_init_time = 0, CODECACHE = None\<rparr>
      \<lparr>now = 300000000, home_reply = Some (TransportError ''refused''), boot_now = 300400000,
        reply = Inr (Response (Inr (PDict [])))\<rparr> TOP_GAINERS_URL
   = (Inl (TransportError ''refused''),
      \<lparr>Nse_CODECACHE = PNone, sessions_created = 2,
        trace = [NewSession 1, SessionGet 1 NSE_HOME]\<rparr>,
      \<lparr>session_refresh_interval = 120, session = 1, session_init_time = 0, CODECACHE = None\<rparr>)
   \<and> fetch \<lparr>Nse_CODECACHE = PNone, sessions_created = 1, trace = []\<rparr>
      \<lparr>session_refresh_interval = 120, session = 0, session_init_time = 0, CODECACHE = None\<rparr>
      \<lparr>now = 119999999, home_reply = None, boot_now = 300400000,
        reply = Inr (Response (Inr (PDict [])))\<rparr> TOP_GAINERS_URL
   = (Inr (Response (Inr (PDict []))),
      \<lparr>Nse_CODECACHE = PNone, sessions_created = 1, trace = [SessionGet 0 TOP_GAINERS_URL]\<rparr>,
      \<lparr>session_refresh_interval = 120, session = 0, session_init_time = 0, CODECACHE = None\<rparr>)"
  using fetch_session_lifecycle
          [where self = "\<lparr>session_refresh_interval = 120, session = 0, session_init_time = 0,
                          CODECACHE = None\<rparr>"
             and w = "\<lparr>Nse_CODECACHE = PNone, sessions_created = 1, trace = []\<rparr>"
             and env = "\<lparr>now = 300000000, home_reply = None, boot_now = 300400000,
                         reply = Inr (Response (Inr (PDict [])))\<rparr>"
             and u = TOP_GAINERS_URL]
        fetch_session_lifecycle
          [where self = "\<lparr>session_refresh_interval = 120, session = 0, session_init_time = 0,
                          CODECACHE = None\<rparr>"
             and w = "\<lparr>Nse_CODECACHE = PNone, sessions_created = 1, trace = []\<rparr>"
             and env = "\<lparr>now = 300000000, home_reply = Some (TransportError ''refused''),
                         boot_now = 300400000, reply = Inr (Response (Inr (PDict [])))\<rparr>"
             and u = TOP_GAINERS_URL and e = "TransportError ''refused''"]
        fetch_session_lifecycle
          [where self = "\<lparr>session_refresh_interval = 120, session = 0, session_init_time = 0,
                          CODECACHE = None\<rparr>"
             and w = "\<lparr>Nse_CODECACHE = PNone, sessions_created = 1, trace = []\<rparr>"
             and env = "\<lparr>now = 119999999, home_reply = None, boot_now = 300400000,
                         reply = Inr (Response (Inr (PDict [])))\<rparr>"
             and u = TOP_GAINERS_URL]
  by simp

text \<open>
  Two calls two seconds apart, 119 and 121 seconds after the session was created with
  the default interval of 120 seconds: the first is sent on session 0, the second
  bootstraps session 1.
\<close>

theorem fetch_within_interval_counterexample:
  "fetch \<lparr>Nse_CODECACHE = PNone, sessions_created = 1, trace = []\<rparr>
      \<lparr>session_refresh_interval = 120, session = 0, session_init_time = 0, CODECACHE = None\<rparr>
      \<lparr>now = 119000000, home_reply = None, boot_now = 119300000,
        reply = Inr (Response (Inr (PDict [])))\<rparr> TOP_GAINERS_URL
   = (Inr (Response (Inr (PDict []))),
      \<lparr>Nse_CODECACHE = PNone, sessions_created = 1, trace = [SessionGet 0 TOP_GAINERS_URL]\<rparr>,
      \<lparr>session_refresh_interval = 120, session = 0, session_init_time = 0, CODECACHE = None\<rparr>)
   \<and> fetch \<lparr>Nse_CODECACHE = PNone, sessions_created = 1, trace = [SessionGet 0 TOP_GAINERS_URL]\<rparr>
      \<lparr>session_refresh_interval = 120, session = 0, session_init_time = 0, CODECACHE = None\<rparr>
      \<lparr>now = 121000000, home_reply = None, boot_now = 121300000,
        reply = Inr (Response (Inr (PDict [])))\<rparr> TOP_GAINERS_URL
   = (Inr (Response (Inr (PDict []))),
      \<lparr>Nse_CODECACHE = PNone, sessions_created = 2,
        trace = [SessionGet 0 TOP_GAINERS_URL, NewSession 1, SessionGet 1 NSE_HOME,
                 SessionGet 1 TOP_GAINERS_URL]\<rparr>,
      \<lparr>session_refresh_interval = 120, session = 1, session_init_time = 121300000,
        CODECACHE = None\<rparr>)
   \<and> (121000000 - 119000000 :: int) < 120 * 1000000"
  by (simp add: fetch_def session_get_def create_session_def timedelta_seconds_def Let_def)

text \<open>
  Beyond a day \<^verbatim>\<open>timedelta.seconds\<close> starts again from zero: one day and five seconds
  after the creation the session still counts as fresh.
\<close>

lemma fetch_after_a_day_example:
  "fetch \<lparr>Nse_CODECACHE = PNone, sessions_created = 1, trace = []\<rparr>
      \<lparr>session_refresh_interval = 120, session = 0, session_init_time = 0, CODECACHE = None\<rparr>
      \<lparr>now = 86405000000, home_reply = None, boot_now = 86405300000,
        reply = Inr (Response (Inr (PDict [])))\<rparr> TOP_GAINERS_URL
   = (Inr (Response (Inr (PDict []))),
      \<lparr>Nse_CODECACHE = PNone, sessions_created = 1, trace = [SessionGet 0 TOP_GAINERS_URL]\<rparr>,
      \<lparr>session_refresh_interval = 120, session = 0, session_init_time = 0, CODECACHE = None\<rparr>)"
  by (simp add: fetch_def session_get_def timedelta_seconds_def Let_def)

section \<open>Properties of the product queries\<close>

lemma fetch_cases:
  "fetch w self env u =
     (if timedelta_seconds (now env - session_init_time self) < session_refresh_interval self
      then (reply env, w\<lparr>trace := trace w @ [SessionGet (session self) u]\<rparr>, self)
      else (case home_reply env of
              None \<Rightarrow>
                (reply env,
                 w\<lparr>sessions_created := Suc (sessions_created w),
                   trace := trace w @ [NewSession (sessions_created w),
                                       SessionGet (sessions_created w) NSE_HOME,
                                       SessionGet (sessions_created w) u]\<rparr>,
                 self\<lparr>session := sessions_created w, session_init_time := boot_now env\<rparr>)
            | Some e \<Rightarrow>
                (Inl e,
                 w\<lparr>sessions_created := Suc (sessions_created w),
                   trace := trace w @ [NewSession (sessions_created w),
                                       SessionGet (sessions_created w) NSE_HOME]\<rparr>,
                 self\<lparr>session := sessions_created w\<rparr>)))"
  by (cases "home_reply env") (simp_all add: fetch_fresh fetch_stale fetch_stale_failed)

lemma fetch_Inr_one_request:
  assumes "fetch w self env u = (Inr res, w1, self1)" and "u \<noteq> NSE_HOME"
  shows "requests_to u w1 = requests_to u w + 1"
  using assms
  by (auto simp: fetch_cases requests_to_def split: if_splits option.splits)

lemma fetch_fresh_state:
  assumes "fetch w self env u = (res, w1, self1)"
      and "timedelta_seconds (now env - session_init_time self) < session_refresh_interval self"
  shows "self1 = self \<and> bootstraps w1 = bootstraps w \<and> sessions_created w1 = sessions_created w"
  using assms by (auto simp: fetch_cases bootstraps_append)

lemma get_all_index_quote_effects:
  "snd (get_all_index_quote w self env) = snd (fetch w self env ALL_INDICES_URL)"
  by (auto simp: get_all_index_quote_def split: prod.splits sum.splits)

lemma get_all_index_quote_Inr:
  assumes "get_all_index_quote w self env = (Inr q, w1, self1)"
  shows "\<exists>res. fetch w self env ALL_INDICES_URL = (Inr res, w1, self1)"
  using assms by (auto simp: get_all_index_quote_def split: prod.splits sum.splits)

lemma get_index_quote_effects:
  "snd (get_index_quote w self env code) = snd (get_all_index_quote w self env)"
  by (auto simp: get_index_quote_def Let_def split: prod.splits sum.splits list.splits)

text \<open>
  C8. When the list of all indices has been fetched and read, and the code, upper-cased
  and with its whitespace collapsed, is not among the index symbols, \<^verbatim>\<open>get_index_quote\<close>
  fails with \<^verbatim>\<open>Exception('Wrong index code')\<close>, which is no transport error. The state
  and the trace are those the one lookup request left: that request was sent once, and
  a session that was fresh is still the same one.
\<close>

theorem get_index_quote_unknown_code:
  assumes "get_all_index_quote w self env = (Inr q, w1, self1)"
      and "index_symbols q = Inr index_list"
      and "PStr (join '' '' (split_ws (upper code))) \<notin> set index_list"
  shows "get_index_quote w self env code = (Inl (Exception ''Wrong index code''), w1, self1)
         \<and> \<not> is_transport_error (Exception ''Wrong index code'')
         \<and> requests_to ALL_INDICES_URL w1 = requests_to ALL_INDICES_URL w + 1
         \<and> (timedelta_seconds (now env - session_init_time self) < session_refresh_interval self \<longrightarrow>
              self1 = self \<and> bootstraps w1 = bootstraps w
              \<and> sessions_created w1 = sessions_created w)"
proof (intro conjI impI)
  from assms show "get_index_quote w self env code = (Inl (Exception ''Wrong index code''), w1, self1)"
    by (simp add: get_index_quote_def Let_def)
  show "\<not> is_transport_error (Exception ''Wrong index code'')"
    by (simp add: is_transport_error_def)
  from get_all_index_quote_Inr [OF assms(1)]
  obtain res where f: "fetch w self env ALL_INDICES_URL = (Inr res, w1, self1)" ..
  from fetch_Inr_one_request [OF f]
  show "requests_to ALL_INDICES_URL w1 = requests_to ALL_INDICES_URL w + 1" by simp
  assume fresh: "timedelta_seconds (now env - session_init_time self) < session_refresh_interval self"
  from fetch_fresh_state [OF f fresh]
  show "self1 = self" and "bootstraps w1 = bootstraps w"
    and "sessions_created w1 = sessions_created w"
    by simp_all
qed

lemma all_indices_example:
  "get_all_index_quote \<lparr>Nse_CODECACHE = PNone, sessions_created = 1, trace = []\<rparr>
      \<lparr>session_refresh_interval = 120, session = 0, session_init_time = 0, CODECACHE = None\<rparr>
      \<lparr>now = 5000000, home_reply = None, boot_now = 5300000,
        reply = Inr (Response (Inr (PDict
          [(''data'', PList [PDict [(''indexSymbol'', PStr ''NIFTY 50''), (''last'', PStr ''22000.5'')],
                            PDict [(''indexSymbol'', PStr ''NIFTY BANK''), (''last'', PStr ''48000'')]])])))\<rparr>
   = (Inr (PList [PDict [(''indexSymbol'', PStr ''NIFTY 50''), (''last'', PStr ''22000.5'')],
                  PDict [(''indexSymbol'', PStr ''NIFTY BANK''), (''last'', PStr ''48000'')]]),
      \<lparr>Nse_CODECACHE = PNone, sessions_created = 1, trace = [SessionGet 0 ALL_INDICES_URL]\<rparr>,
      \<lparr>session_refresh_interval = 120, session = 0, session_init_time = 0, CODECACHE = None\<rparr>)"
  by (simp add: get_all_index_quote_def fetch_def session_get_def timedelta_seconds_def)

theorem get_index_quote_unknown_code_witness:
  "get_index_quote \<lparr>Nse_CODECACHE = PNone, sessions_created = 1, trace = []\<rparr>
      \<lparr>session_refresh_interval = 120, session = 0, session_init_time = 0, CODECACHE = None\<rparr>
      \<lparr>now = 5000000, home_reply = None, boot_now = 5300000,
        reply = Inr (Response (Inr (PDict
          [(''data'', PList [PDict [(''indexSymbol'', PStr ''NIFTY 50''), (''last'', PStr ''22000.5'')],
                            PDict [(''indexSymbol'', PStr ''NIFTY BANK''), (''last'', PStr ''48000'')]])])))\<rparr>
      ''NOT-A-REAL-INDEX''
   = (Inl (Exception ''Wrong index code''),
      \<lparr>Nse_CODECACHE = PNone, sessions_created = 1, trace = [SessionGet 0 ALL_INDICES_URL]\<rparr>,
      \<lparr>session_refresh_interval = 120, session = 0, session_init_time = 0, CODECACHE = None\<rparr>)"
proof -
  have syms: "index_symbols
      (PList [PDict [(''indexSymbol'', PStr ''NIFTY 50''), (''last'', PStr ''22000.5'')],
              PDict [(''indexSymbol'', PStr ''NIFTY BANK''), (''last'', PStr ''48000'')]])
    = Inr [PStr ''NIFTY 50'', PStr ''NIFTY BANK'']"
    by (simp add: index_symbols_def)
  have code: "PStr (join '' '' (split_ws (upper ''NOT-A-REAL-INDEX'')))
                \<notin> set [PStr ''NIFTY 50'', PStr ''NIFTY BANK'']"
    by (simp add: upper_def split_ws_def isspace_def)
  from get_index_quote_unknown_code [OF all_indices_example syms code]
  show ?thesis by simp
qed

text \<open>
  C10. With a selector, \<^verbatim>\<open>get_top_gainers\<close> and \<^verbatim>\<open>get_top_losers\<close> return what
  \<^verbatim>\<open>res_dict[index]['data']\<close> holds in the decoded payload, as it is; without one they
  return the payload passed through the normaliser.
\<close>

theorem top_movers_selector_verbatim:
  assumes "index \<noteq> PNone"
      and "json res = Inr payload"
      and "py_getitem payload index = Inr sub"
      and "py_getitem sub (PStr ''data'') = Inr data"
  shows "(fetch w self env TOP_GAINERS_URL = (Inr res, w1, self1) \<longrightarrow>
            get_top_gainers w self env index = (Inr data, w1, self1)
            \<and> get_top_gainers w self env PNone = (cast_intfloat_any payload, w1, self1))
         \<and> (fetch w self env TOP_LOSERS_URL = (Inr res, w1, self1) \<longrightarrow>
            get_top_losers w self env index = (Inr data, w1, self1)
            \<and> get_top_losers w self env PNone = (cast_intfloat_any payload, w1, self1))"
  using assms by (simp add: get_top_gainers_def get_top_losers_def)

theorem top_movers_selector_verbatim_witness:
  "get_top_gainers \<lparr>Nse_CODECACHE = PNone, sessions_created = 1, trace = []\<rparr>
      \<lparr>session_refresh_interval = 120, session = 0, session_init_time = 0, CODECACHE = None\<rparr>
      \<lparr>now = 5000000, home_reply = None, boot_now = 5300000,
        reply = Inr (Response (Inr (PDict
          [(''NIFTY'', PDict [(''data'', PList [PDict [(''symbol'', PStr ''INFY''),
                                                      (''ltp'', PStr ''1450.5'')]])]),
           (''count'', PStr ''1'')])))\<rparr>
      (PStr ''NIFTY'')
   = (Inr (PList [PDict [(''symbol'', PStr ''INFY''), (''ltp'', PStr ''1450.5'')]]),
      \<lparr>Nse_CODECACHE = PNone, sessions_created = 1, trace = [SessionGet 0 TOP_GAINERS_URL]\<rparr>,
      \<lparr>session_refresh_interval = 120, session = 0, session_init_time = 0, CODECACHE = None\<rparr>)
   \<and> get_top_gainers \<lparr>Nse_CODECACHE = PNone, sessions_created = 1, trace = []\<rparr>
      \<lparr>session_refresh_interval = 120, session = 0, session_init_time = 0, CODECACHE = None\<rparr>
      \<lparr>now = 5000000, home_reply = None, boot_now = 5300000,
        reply = Inr (Response (Inr (PDict
          [(''NIFTY'', PDict [(''data'', PList [PDict [(''symbol'', PStr ''INFY''),
                                                      (''ltp'', PStr ''1450.5'')]])]),
           (''count'', PStr ''1'')])))\<rparr>
      PNone
   = (Inr (PDict
          [(''NIFTY'', PDict [(''data'', PList [PDict [(''symbol'', PStr ''INFY''),
                                                      (''ltp'', PStr ''1450.5'')]])]),
           (''count'', PInt 1)]),
      \<lparr>Nse_CODECACHE = PNone, sessions_created = 1, trace = [SessionGet 0 TOP_GAINERS_URL]\<rparr>,
      \<lparr>session_refresh_interval = 120, session = 0, session_init_time = 0, CODECACHE = None\<rparr>)"
proof -
  let ?payload = "PDict
          [(''NIFTY'', PDict [(''data'', PList [PDict [(''symbol'', PStr ''INFY''),
                                                      (''ltp'', PStr ''1450.5'')]])]),
           (''count'', PStr ''1'')]"
  let ?w = "\<lparr>Nse_CODECACHE = PNone, sessions_created = 1, trace = []\<rparr>"
  let ?s = "\<lparr>session_refresh_interval = 120, session = 0, session_init_time = 0, CODECACHE = None\<rparr>"
  let ?env = "\<lparr>now = 5000000, home_reply = None, boot_now = 5300000,
               reply = Inr (Response (Inr ?payload))\<rparr>"
  have f: "fetch ?w ?s ?env TOP_GAINERS_URL
      = (Inr (Response (Inr ?payload)),
         \<lparr>Nse_CODECACHE = PNone, sessions_created = 1, trace = [SessionGet 0 TOP_GAINERS_URL]\<rparr>, ?s)"
    by (simp add: fetch_def session_get_def timedelta_seconds_def)
  have c: "cast_intfloat_any ?payload
      = Inr (PDict
          [(''NIFTY'', PDict [(''data'', PList [PDict [(''symbol'', PStr ''INFY''),
                                                      (''ltp'', PStr ''1450.5'')]])]),
           (''count'', PInt 1)])"
    by (simp add: cast_intfloat_string_values_to_intfloat_def cast_step.simps cast_str_def
          parse_defs)
  from top_movers_selector_verbatim
         [where index = "PStr ''NIFTY''" and res = "Response (Inr ?payload)"
            and payload = ?payload
            and sub = "PDict [(''data'', PList [PDict [(''symbol'', PStr ''INFY''),
                                                      (''ltp'', PStr ''1450.5'')]])]"
            and data = "PList [PDict [(''symbol'', PStr ''INFY''), (''ltp'', PStr ''1450.5'')]]"
            and w = ?w and self = ?s and env = ?env
            and ?w1.0 = "\<lparr>Nse_CODECACHE = PNone, sessions_created = 1,
                           trace = [SessionGet 0 TOP_GAINERS_URL]\<rparr>"
            and ?self1.0 = ?s]
       f c
  show ?thesis by simp
qed

end
